theory Spec2Isabelle
  imports Main "HOL-Library.Sublist" "HOL-Library.Char_ord" "HOL-Library.List_Lexorder"
begin

section \<open>The OCI runtime executor of containerd (execution/executors/oci/oci.go)\<close>

text \<open>
  The executor maps lifecycle calls onto an external OCI runtime driver (runc) and keeps a
  ledger of containers and processes in the file system. The embedding passes the world
  (file system, the calls issued to the driver, the signals sent) explicitly; the answers
  of the driver and of the operating system are parameters, collected in an environment.
\<close>

subsection \<open>Paths\<close>

text \<open>
  A path is the list of the non-empty elements it was joined from; the path string is
  these elements separated by slashes. \<open>filepath.Join\<close> ignores empty elements, and
  \<open>filepath.Base\<close> of the empty path is a single dot. The elements joined below the
  runtime root (container IDs, slot names, \<open>processes\<close>, \<open>pid\<close>) are taken to be
  single path elements, so that cleaning the joined path changes nothing.
\<close>

type_synonym path = "string list"

definition path_of :: "string \<Rightarrow> path" where
  "path_of s = (if s = [] then [] else [s])"

definition Join :: "path \<Rightarrow> string \<Rightarrow> path" where
  "Join p s = (if s = [] then p else p @ [s])"

definition Base :: "path \<Rightarrow> string" where
  "Base p = (if p = [] then ''.'' else last p)"

subsection \<open>Errors and the file system\<close>

text \<open>
  \<open>ErrRootEmpty\<close> is the only error value the file declares; \<open>Errorf\<close> is an error
  made by \<open>fmt.Errorf\<close> from a message; the other constructors are the errors of the
  driver, of the file system and of the construction of a process record.
\<close>

datatype error =
    ErrRootEmpty
  | Errorf string
  | DriverError string
  | IOError string
  | ProcessError string

text \<open>
  A function that panics does not return: its outcome is \<open>Panics\<close> with the message of
  the runtime.
\<close>

datatype 'a outcome = Returns 'a | Panics string

text \<open>
  A PID file holds the decimal text of an OS process ID, or anything else. The file system
  is an association list from paths to nodes, the entry of a path being the first one.
\<close>

datatype filedata = PidText int | Garbage

datatype node = Dir | File filedata

type_synonym filesystem = "(path \<times> node) list"

definition RemoveAll :: "path \<Rightarrow> filesystem \<Rightarrow> filesystem" where
  "RemoveAll p files = filter (\<lambda>e. \<not> prefix p (fst e)) files"

definition WriteFile :: "path \<Rightarrow> filedata \<Rightarrow> filesystem \<Rightarrow> filesystem" where
  "WriteFile p d files = (p, File d) # filter (\<lambda>e. fst e \<noteq> p) files"

definition Mkdir :: "path \<Rightarrow> filesystem \<Rightarrow> filesystem" where
  "Mkdir p files = (p, Dir) # files"

text \<open>
  \<open>ioutil.ReadDir\<close> lists the entries of a directory sorted by name, and fails when the
  directory cannot be read.
\<close>

definition ReadDir :: "path \<Rightarrow> filesystem \<Rightarrow> error + string list" where
  "ReadDir p files =
     (case map_of files p of
        Some Dir \<Rightarrow>
          Inr (sort (remdups (map (\<lambda>e. last (fst e))
                 (filter (\<lambda>e. fst e \<noteq> [] \<and> butlast (fst e) = p) files))))
      | _ \<Rightarrow> Inl (IOError ''cannot read directory''))"

text \<open>\<open>runc.ReadPidFile\<close> reads the file and converts its text to a PID.\<close>

definition ReadPidFile :: "path \<Rightarrow> filesystem \<Rightarrow> error + int" where
  "ReadPidFile p files =
     (case map_of files p of
        Some (File (PidText n)) \<Rightarrow> Inr n
      | Some (File Garbage) \<Rightarrow> Inl (IOError ''pid file is not a number'')
      | _ \<Rightarrow> Inl (IOError ''cannot read pid file''))"

subsection \<open>The driver and the world\<close>

text \<open>The descriptor of a container as the driver reports it (\<open>runc.Container\<close>).\<close>

record runc_Container =
  rc_ID :: string
  rc_Bundle :: string
  rc_Pid :: int

text \<open>
  The calls the executor issues to the driver, with the arguments it passes:
  create (id, bundle, PID file, stdin, stdout, stderr), exec (id, process spec, PID file,
  detach, stdin, stdout, stderr), state, list, delete, pause and resume.
\<close>

datatype driver_call =
    CreateCall string string path string string string
  | ExecCall string string path bool string string string
  | StateCall string
  | ListCall
  | DeleteCall string
  | PauseCall string
  | ResumeCall string

text \<open>
  A process-creating call of the driver fails with an error, or is done and has written
  the given data to its PID-file target (or written nothing).
\<close>

datatype driver_outcome = DriverFails error | DriverDone "filedata option"

text \<open>
  The environment: what the driver answers to each call, the slot name the temporary
  directory allocation picks given the names in use, whether the construction of a
  process record fails, and what \<open>syscall.Kill\<close> answers.
\<close>

record env =
  runc_Create :: "string \<Rightarrow> string \<Rightarrow> path \<Rightarrow> driver_outcome"
  runc_ExecProcess :: "string \<Rightarrow> string \<Rightarrow> path \<Rightarrow> driver_outcome"
  runc_State :: "string \<Rightarrow> error + runc_Container"
  runc_List :: "error + runc_Container list"
  runc_Delete :: "string \<Rightarrow> error option"
  runc_Pause :: "string \<Rightarrow> error option"
  runc_Resume :: "string \<Rightarrow> error option"
  pick_slot :: "string list \<Rightarrow> string"
  newProcess_err :: "string \<Rightarrow> int \<Rightarrow> error option"
  kill_err :: "int \<Rightarrow> int \<Rightarrow> error option"

record world =
  files :: filesystem
  driver_calls :: "driver_call list"
  kills :: "(int \<times> int) list"

definition call_driver :: "driver_call \<Rightarrow> world \<Rightarrow> world" where
  "call_driver c w = w\<lparr>driver_calls := driver_calls w @ [c]\<rparr>"

definition driver_writes :: "path \<Rightarrow> driver_outcome \<Rightarrow> world \<Rightarrow> world" where
  "driver_writes pidfile res w =
     (case res of
        DriverDone (Some d) \<Rightarrow> w\<lparr>files := WriteFile pidfile d (files w)\<rparr>
      | _ \<Rightarrow> w)"

subsection \<open>Processes, containers and state directories (package execution)\<close>

text \<open>
  Modelled from the spec: the records and helpers of package \<open>execution\<close> and the
  constructor \<open>newProcess\<close> are not in \<open>oci.go\<close>. A process is its slot name and its
  OS process ID. A container is its ID, its bundle path, its state-directory handle (the
  path of its ledger entry) and its process records, each marked init or not.
\<close>

record process =
  proc_id :: string
  proc_pid :: int

record container =
  cid :: string
  bundlePath :: string
  stateDir :: path
  processes :: "(process \<times> bool) list"

text \<open>
  Modelled from the spec: \<open>newProcess\<close> builds the process record of a slot name and a
  PID, or fails.
\<close>

definition newProcess :: "env \<Rightarrow> string \<Rightarrow> int \<Rightarrow> error + process" where
  "newProcess en slot pid =
     (case newProcess_err en slot pid of
        Some e \<Rightarrow> Inl e
      | None \<Rightarrow> Inr \<lparr>proc_id = slot, proc_pid = pid\<rparr>)"

text \<open>
  Modelled from the spec: \<open>AddProcess\<close> attaches a process record to the container,
  marked init or not; \<open>GetProcess\<close> of the container looks a process up by its ID in the container's
  in-memory set and returns nil when there is none.
\<close>

definition AddProcess :: "container \<Rightarrow> process \<Rightarrow> bool \<Rightarrow> container" where
  "AddProcess c p isInit = c\<lparr>processes := processes c @ [(p, isInit)]\<rparr>"

definition Container_GetProcess :: "container \<Rightarrow> string \<Rightarrow> process option" where
  "Container_GetProcess c pid_id = map_option fst (find (\<lambda>e. proc_id (fst e) = pid_id) (processes c))"

text \<open>
  Modelled from the spec: the accessor \<open>StateDir\<close> reads the state-directory handle of
  the container record its receiver points to; on a nil pointer there is no record to
  read, and the call panics.
\<close>

definition StateDir :: "container option \<Rightarrow> path outcome" where
  "StateDir cp =
     (case cp of
        None \<Rightarrow> Panics ''invalid memory address or nil pointer dereference''
      | Some c \<Rightarrow> Returns (stateDir c))"

text \<open>
  Modelled from the spec: the ledger entry of a container is the directory
  \<open>root/id\<close> with the process collection \<open>root/id/processes\<close> in it.
  \<open>NewContainer\<close> allocates the entry (the ID must be unused) and returns the record;
  \<open>LoadContainer\<close> builds the record of an existing entry.
\<close>

definition StateDir_Processes :: "path \<Rightarrow> path" where
  "StateDir_Processes s = Join s ''processes''"

definition NewContainer :: "string \<Rightarrow> string \<Rightarrow> string \<Rightarrow> world \<Rightarrow> (error + container) \<times> world" where
  "NewContainer rt ident bndl w =
     (let dir = Join (path_of rt) ident in
      if map_of (files w) dir = None
      then (Inr \<lparr>cid = ident, bundlePath = bndl, stateDir = dir, processes = []\<rparr>,
            w\<lparr>files := Mkdir (StateDir_Processes dir) (Mkdir dir (files w))\<rparr>)
      else (Inl (IOError ''state directory exists''), w))"

definition LoadContainer :: "path \<Rightarrow> string \<Rightarrow> string \<Rightarrow> container" where
  "LoadContainer dir ident bndl = \<lparr>cid = ident, bundlePath = bndl, stateDir = dir, processes = []\<rparr>"

text \<open>
  Modelled from the spec: \<open>NewProcess\<close> allocates a process slot, a directory with a
  new name in the process collection, and returns its path; like the Go function it
  returns the empty path and an error when it cannot. \<open>Delete\<close> removes the whole entry
  of the container and \<open>DeleteProcess\<close> the slot of the given name; both report the
  result of the removal.
\<close>

definition StateDir_NewProcess :: "env \<Rightarrow> path \<Rightarrow> world \<Rightarrow> (path \<times> error option) \<times> world" where
  "StateDir_NewProcess en s w =
     (case ReadDir (StateDir_Processes s) (files w) of
        Inl e \<Rightarrow> (([], Some e), w)
      | Inr names \<Rightarrow>
          (let name = pick_slot en names in
           if name = [] then (([], Some (IOError ''cannot allocate a process slot'')), w)
           else if List.member names name
           then (([], Some (IOError ''cannot allocate a process slot'')), w)
           else ((StateDir_Processes s @ [name], None),
                 w\<lparr>files := Mkdir (StateDir_Processes s @ [name]) (files w)\<rparr>)))"

definition StateDir_Delete :: "path \<Rightarrow> world \<Rightarrow> error option \<times> world" where
  "StateDir_Delete s w = (None, w\<lparr>files := RemoveAll s (files w)\<rparr>)"

definition StateDir_DeleteProcess :: "path \<Rightarrow> string \<Rightarrow> world \<Rightarrow> error option \<times> world" where
  "StateDir_DeleteProcess s slot w =
     (None, w\<lparr>files := RemoveAll (Join (StateDir_Processes s) slot) (files w)\<rparr>)"

subsection \<open>The executor\<close>

record Runc =
  Root :: path

record OCIRuntime =
  root :: string
  runc :: Runc

text \<open>\<open>New\<close> builds the executor of a runtime root; it has no error result.\<close>

definition New :: "string \<Rightarrow> OCIRuntime" where
  "New rt = \<lparr>root = rt, runc = \<lparr>Root = Join (path_of rt) ''runc''\<rparr>\<rparr>"

text \<open>
  \<open>Create\<close> has the named results \<open>container\<close> and \<open>err\<close>. After the container
  is allocated it registers a deferred function, and every \<open>return\<close> that follows first
  assigns the named results and then runs the deferred function, which reads them.

  \<open>Create_body\<close> is the part of the function after the \<open>defer\<close> statement: its result
  is the pair of values its \<open>return\<close> statement assigns to \<open>container\<close> and \<open>err\<close>.
  The error of the slot allocation is not looked at, and the identifier \<open>pidfile\<close> is the
  variable \<open>pidFile\<close>.
\<close>

record CreateOpts =
  Bundle :: string
  Stdin :: string
  Stdout :: string
  Stderr :: string

definition Create_body ::
  "env \<Rightarrow> OCIRuntime \<Rightarrow> container \<Rightarrow> string \<Rightarrow> CreateOpts \<Rightarrow> world
     \<Rightarrow> (container option \<times> error option) \<times> world" where
  "Create_body en r c ident opts w =
     (let alloc = StateDir_NewProcess en (stateDir c) w;
          initDir = fst (fst alloc);
          pidFile = Join initDir ''pid'';
          res = runc_Create en ident (Bundle opts) pidFile;
          w2 = driver_writes pidFile res
                 (call_driver (CreateCall ident (Bundle opts) pidFile
                                 (Stdin opts) (Stdout opts) (Stderr opts)) (snd alloc))
      in case res of
           DriverFails e \<Rightarrow> ((None, Some e), w2)
         | DriverDone _ \<Rightarrow>
             (case ReadPidFile pidFile (files w2) of
                Inl e \<Rightarrow> ((None, Some e), w2)
              | Inr pid \<Rightarrow>
                  (case newProcess en (Base initDir) pid of
                     Inl e \<Rightarrow> ((None, Some e), w2)
                   | Inr p \<Rightarrow> ((Some (AddProcess c p True), None), w2))))"

text \<open>
  The deferred function of \<open>Create\<close>: when the named result \<open>err\<close> is not nil it
  deletes the state directory of the named result \<open>container\<close>, dropping what the
  removal reports.
\<close>

definition Create_deferred :: "container option \<Rightarrow> error option \<Rightarrow> world \<Rightarrow> unit outcome \<times> world" where
  "Create_deferred cont err w =
     (if err = None then (Returns (), w)
      else case StateDir cont of
             Panics msg \<Rightarrow> (Panics msg, w)
           | Returns s \<Rightarrow> (Returns (), snd (StateDir_Delete s w)))"

definition Create ::
  "env \<Rightarrow> OCIRuntime \<Rightarrow> string \<Rightarrow> CreateOpts \<Rightarrow> world
     \<Rightarrow> (container option \<times> error option) outcome \<times> world" where
  "Create en r ident opts w =
     (case NewContainer (root r) ident (Bundle opts) w of
        (Inl e, w1) \<Rightarrow> (Returns (None, Some e), w1)
      | (Inr c, w1) \<Rightarrow>
          (let body = Create_body en r c ident opts w1;
               dfr = Create_deferred (fst (fst body)) (snd (fst body)) (snd body)
           in case fst dfr of
                Panics msg \<Rightarrow> (Panics msg, snd dfr)
              | Returns u \<Rightarrow> (Returns (fst body), snd dfr)))"

text \<open>
  \<open>load\<close> rebuilds the record of a container from its ledger entry: one process per
  entry of the process collection, read from the file \<open>pid\<close> of the entry, marked init
  when its PID is the one the driver reports. The loop variable stands for the path of
  the entry.
\<close>

fun load_loop :: "env \<Rightarrow> int \<Rightarrow> path list \<Rightarrow> container \<Rightarrow> filesystem \<Rightarrow> error + container" where
  "load_loop en initPid [] c fl = Inr c"
| "load_loop en initPid (d # ds) c fl =
     (case ReadPidFile (Join d ''pid'') fl of
        Inl e \<Rightarrow> Inl e
      | Inr pid \<Rightarrow>
          (case newProcess en (Base d) pid of
             Inl e \<Rightarrow> Inl e
           | Inr p \<Rightarrow> load_loop en initPid ds (AddProcess c p (pid = initPid)) fl))"

definition load :: "env \<Rightarrow> OCIRuntime \<Rightarrow> runc_Container \<Rightarrow> world \<Rightarrow> error + container" where
  "load en r runcC w =
     (let c = LoadContainer (Join (path_of (root r)) (rc_ID runcC)) (rc_ID runcC) (rc_Bundle runcC);
          procs = StateDir_Processes (stateDir c)
      in case ReadDir procs (files w) of
           Inl e \<Rightarrow> Inl e
         | Inr dirs \<Rightarrow> load_loop en (rc_Pid runcC) (map (\<lambda>n. procs @ [n]) dirs) c (files w))"

text \<open>
  \<open>List\<close> asks the driver for its containers and loads each one, appending to the
  sequence it returns; the first failure ends the call with the error.
\<close>

fun List_loop :: "env \<Rightarrow> OCIRuntime \<Rightarrow> runc_Container list \<Rightarrow> container list \<Rightarrow> world
    \<Rightarrow> error + container list" where
  "List_loop en r [] containers w = Inr containers"
| "List_loop en r (c # cs) containers w =
     (case load en r c w of
        Inl e \<Rightarrow> Inl e
      | Inr cont \<Rightarrow> List_loop en r cs (containers @ [cont]) w)"

definition List :: "env \<Rightarrow> OCIRuntime \<Rightarrow> world \<Rightarrow> (error + container list) \<times> world" where
  "List en r w =
     (let w1 = call_driver ListCall w in
      case runc_List en of
        Inl e \<Rightarrow> (Inl e, w1)
      | Inr runcCs \<Rightarrow> (List_loop en r runcCs [] w1, w1))"

definition Load :: "env \<Rightarrow> OCIRuntime \<Rightarrow> string \<Rightarrow> world \<Rightarrow> (error + container) \<times> world" where
  "Load en r ident w =
     (let w1 = call_driver (StateCall ident) w in
      case runc_State en ident of
        Inl e \<Rightarrow> (Inl e, w1)
      | Inr runcC \<Rightarrow> (load en r runcC w1, w1))"

text \<open>
  \<open>Delete\<close> asks the driver to delete the container; when the driver fails it returns
  the error, otherwise it removes the state directory and returns nil.
\<close>

definition Delete :: "env \<Rightarrow> OCIRuntime \<Rightarrow> container \<Rightarrow> world \<Rightarrow> error option \<times> world" where
  "Delete en r c w =
     (let w1 = call_driver (DeleteCall (cid c)) w in
      case runc_Delete en (cid c) of
        Some e \<Rightarrow> (Some e, w1)
      | None \<Rightarrow> (None, snd (StateDir_Delete (stateDir c) w1)))"

definition Pause :: "env \<Rightarrow> OCIRuntime \<Rightarrow> container \<Rightarrow> world \<Rightarrow> error option \<times> world" where
  "Pause en r c w = (runc_Pause en (cid c), call_driver (PauseCall (cid c)) w)"

definition Resume :: "env \<Rightarrow> OCIRuntime \<Rightarrow> container \<Rightarrow> world \<Rightarrow> error option \<times> world" where
  "Resume en r c w = (runc_Resume en (cid c), call_driver (ResumeCall (cid c)) w)"

text \<open>
  \<open>StartProcess\<close> has unnamed results and a local variable \<open>err\<close>, which its deferred
  function reads: when \<open>err\<close> is not nil at the return, the slot is deleted by the base
  name of its directory. The container is changed in place, so the function also returns
  the container as it is afterwards.

  The PID-file target is the slot directory joined with the identifier \<open>id\<close>, which the
  function does not declare: its value is the parameter \<open>ident\<close>. The second \<open>:=\<close> on
  \<open>err\<close> is an assignment, \<open>pidfile\<close> is the variable \<open>pidFile\<close>, \<open>container\<close> is the
  parameter \<open>c\<close>, and \<open>newProcess\<close>, called with the PID only, is given the slot name
  as at its other call sites.
\<close>

record CreateProcessOpts =
  spec :: string
  stdin :: string
  stdout :: string
  stderr :: string

definition StartProcess_body ::
  "env \<Rightarrow> OCIRuntime \<Rightarrow> string \<Rightarrow> container \<Rightarrow> CreateProcessOpts \<Rightarrow> path \<Rightarrow> world
     \<Rightarrow> (error + process) \<times> container \<times> world" where
  "StartProcess_body en r ident c opts processStateDir w =
     (let pidFile = Join processStateDir ident;
          res = runc_ExecProcess en (cid c) (spec opts) pidFile;
          w2 = driver_writes pidFile res
                 (call_driver (ExecCall (cid c) (spec opts) pidFile True
                                 (stdin opts) (stdout opts) (stderr opts)) w)
      in case res of
           DriverFails e \<Rightarrow> (Inl e, c, w2)
         | DriverDone _ \<Rightarrow>
             (case ReadPidFile pidFile (files w2) of
                Inl e \<Rightarrow> (Inl e, c, w2)
              | Inr pid \<Rightarrow>
                  (case newProcess en (Base processStateDir) pid of
                     Inl e \<Rightarrow> (Inl e, c, w2)
                   | Inr p \<Rightarrow> (Inr p, AddProcess c p False, w2))))"

definition StartProcess ::
  "env \<Rightarrow> OCIRuntime \<Rightarrow> string \<Rightarrow> container \<Rightarrow> CreateProcessOpts \<Rightarrow> world
     \<Rightarrow> (error + process) \<times> container \<times> world" where
  "StartProcess en r ident c opts w =
     (case StateDir_NewProcess en (stateDir c) w of
        ((processStateDir, Some e), w1) \<Rightarrow> (Inl e, c, w1)
      | ((processStateDir, None), w1) \<Rightarrow>
          (case StartProcess_body en r ident c opts processStateDir w1 of
             (Inl e, c2, w2) \<Rightarrow>
               (Inl e, c2, snd (StateDir_DeleteProcess (stateDir c) (Base processStateDir) w2))
           | (Inr p, c2, w2) \<Rightarrow> (Inr p, c2, w2)))"

text \<open>
  \<open>SignalProcess\<close> looks the process up in the container; when there is none it returns
  an error made by \<open>fmt.Errorf\<close>, otherwise it sends the signal to the PID of the
  record and returns what \<open>syscall.Kill\<close> answers. The signal sent is the parameter
  \<open>sig\<close>.
\<close>

definition SignalProcess ::
  "env \<Rightarrow> OCIRuntime \<Rightarrow> container \<Rightarrow> string \<Rightarrow> int \<Rightarrow> world \<Rightarrow> error option \<times> world" where
  "SignalProcess en r c pid_id sig w =
     (case Container_GetProcess c pid_id of
        None \<Rightarrow> (Some (Errorf ''Make a Process Not Found error''), w)
      | Some p \<Rightarrow> (kill_err en (proc_pid p) sig, w\<lparr>kills := kills w @ [(proc_pid p, sig)]\<rparr>))"

definition GetProcess :: "OCIRuntime \<Rightarrow> container \<Rightarrow> string \<Rightarrow> process option" where
  "GetProcess r c pid_id = Container_GetProcess c pid_id"

text \<open>
  \<open>DeleteProcess\<close> removes the slot through the state directory, drops what the removal
  reports and returns nil. \<open>DeleteProcess_with\<close> is the function over any removal
  helper; \<open>DeleteProcess\<close> is it over the helper of the state directory.
\<close>

definition DeleteProcess_with ::
  "(path \<Rightarrow> string \<Rightarrow> world \<Rightarrow> error option \<times> world) \<Rightarrow> container \<Rightarrow> string \<Rightarrow> world
     \<Rightarrow> error option \<times> world" where
  "DeleteProcess_with rm c pid_id w = (None, snd (rm (stateDir c) pid_id w))"

definition DeleteProcess :: "OCIRuntime \<Rightarrow> container \<Rightarrow> string \<Rightarrow> world \<Rightarrow> error option \<times> world" where
  "DeleteProcess r c pid_id w = DeleteProcess_with StateDir_DeleteProcess c pid_id w"

subsection \<open>An example scenario\<close>

text \<open>
  The scenario of the specification: an executor with the runtime root
  \<open>/run/containerd\<close>, and a driver that starts the init process of a container with
  PID 4242 and every further process with PID 4243, writing the PID to the PID-file target
  it is given. The first slot is named \<open>init\<close> and the next one \<open>exec1\<close>.
\<close>

definition example_runtime :: OCIRuntime where
  "example_runtime = New ''/run/containerd''"

definition example_env :: env where
  "example_env =
     \<lparr>runc_Create = (\<lambda>i b p. DriverDone (Some (PidText 4242))),
      runc_ExecProcess = (\<lambda>i s p. DriverDone (Some (PidText 4243))),
      runc_State = (\<lambda>i. Inr \<lparr>rc_ID = i, rc_Bundle = ''/bundle'', rc_Pid = 4242\<rparr>),
      runc_List = Inr [\<lparr>rc_ID = ''c1'', rc_Bundle = ''/bundle'', rc_Pid = 4242\<rparr>],
      runc_Delete = (\<lambda>i. None),
      runc_Pause = (\<lambda>i. None),
      runc_Resume = (\<lambda>i. None),
      pick_slot = (\<lambda>names. if names = [] then ''init'' else ''exec1''),
      newProcess_err = (\<lambda>s p. None),
      kill_err = (\<lambda>p s. None)\<rparr>"

text \<open>Drivers whose create, exec or delete call fails, and one whose create call is done
  without a PID file.\<close>

definition create_failing_env :: env where
  "create_failing_env =
     example_env\<lparr>runc_Create := (\<lambda>i b p. DriverFails (DriverError ''create failed''))\<rparr>"

definition create_silent_env :: env where
  "create_silent_env = example_env\<lparr>runc_Create := (\<lambda>i b p. DriverDone None)\<rparr>"

definition exec_failing_env :: env where
  "exec_failing_env =
     example_env\<lparr>runc_ExecProcess := (\<lambda>i s p. DriverFails (DriverError ''exec failed''))\<rparr>"

definition delete_failing_env :: env where
  "delete_failing_env =
     example_env\<lparr>runc_Delete := (\<lambda>i. Some (DriverError ''delete failed''))\<rparr>"

definition example_opts :: CreateOpts where
  "example_opts = \<lparr>Bundle = ''/bundle'', Stdin = ''in'', Stdout = ''out'', Stderr = ''err''\<rparr>"

definition example_exec :: CreateProcessOpts where
  "example_exec = \<lparr>spec = ''sh'', stdin = ''in'', stdout = ''out'', stderr = ''err''\<rparr>"

text \<open>The world before container \<open>c1\<close> is created, and the container and the world after
  its creation.\<close>

definition example_world :: world where
  "example_world = \<lparr>files = [([''/run/containerd''], Dir)], driver_calls = [], kills = []\<rparr>"

definition example_container :: container where
  "example_container =
     \<lparr>cid = ''c1'', bundlePath = ''/bundle'', stateDir = [''/run/containerd'', ''c1''],
      processes = [(\<lparr>proc_id = ''init'', proc_pid = 4242\<rparr>, True)]\<rparr>"

definition created_world :: world where
  "created_world =
     \<lparr>files =
        [([''/run/containerd'', ''c1'', ''processes'', ''init'', ''pid''], File (PidText 4242)),
         ([''/run/containerd'', ''c1'', ''processes'', ''init''], Dir),
         ([''/run/containerd'', ''c1'', ''processes''], Dir),
         ([''/run/containerd'', ''c1''], Dir),
         ([''/run/containerd''], Dir)],
      driver_calls =
        [CreateCall ''c1'' ''/bundle''
           [''/run/containerd'', ''c1'', ''processes'', ''init'', ''pid''] ''in'' ''out'' ''err''],
      kills = []\<rparr>"

text \<open>The container and the world after one more process was started in \<open>c1\<close>, the
  identifier \<open>id\<close> of \<open>StartProcess\<close> standing for the container ID.\<close>

definition started_container :: container where
  "started_container =
     \<lparr>cid = ''c1'', bundlePath = ''/bundle'', stateDir = [''/run/containerd'', ''c1''],
      processes = [(\<lparr>proc_id = ''init'', proc_pid = 4242\<rparr>, True),
                   (\<lparr>proc_id = ''exec1'', proc_pid = 4243\<rparr>, False)]\<rparr>"

definition started_world :: world where
  "started_world =
     \<lparr>files =
        [([''/run/containerd'', ''c1'', ''processes'', ''exec1'', ''c1''], File (PidText 4243)),
         ([''/run/containerd'', ''c1'', ''processes'', ''exec1''], Dir),
         ([''/run/containerd'', ''c1'', ''processes'', ''init'', ''pid''], File (PidText 4242)),
         ([''/run/containerd'', ''c1'', ''processes'', ''init''], Dir),
         ([''/run/containerd'', ''c1'', ''processes''], Dir),
         ([''/run/containerd'', ''c1''], Dir),
         ([''/run/containerd''], Dir)],
      driver_calls =
        [CreateCall ''c1'' ''/bundle''
           [''/run/containerd'', ''c1'', ''processes'', ''init'', ''pid''] ''in'' ''out'' ''err'',
         ExecCall ''c1'' ''sh''
           [''/run/containerd'', ''c1'', ''processes'', ''exec1'', ''c1''] True ''in'' ''out'' ''err''],
      kills = []\<rparr>"

section \<open>Properties\<close>

subsection \<open>Removal from the file system\<close>

lemma map_of_RemoveAll: "prefix p q \<Longrightarrow> map_of (RemoveAll p fl) q = None"
  by (induction fl) (auto simp: RemoveAll_def)

lemma map_of_RemoveAll_other: "\<not> prefix p q \<Longrightarrow> map_of (RemoveAll p fl) q = map_of fl q"
  by (induction fl) (auto simp: RemoveAll_def)

text \<open>A slot that was allocated is a directory, and its base name leads back to it.\<close>

lemma NewProcess_slot:
  assumes "StateDir_NewProcess en s w = ((d, None), w1)"
  shows "Join (StateDir_Processes s) (Base d) = d"
    and "map_of (files w1) d = Some Dir"
  using assms
  by (auto simp: StateDir_NewProcess_def Let_def Join_def Base_def Mkdir_def
           split: sum.splits if_splits)

subsection \<open>Calls to the driver leave the files alone\<close>

lemma files_call_driver: "files (call_driver x w) = files w"
  by (simp add: call_driver_def)

lemma load_call_driver: "load en r c (call_driver x w) = load en r c w"
  by (simp add: load_def files_call_driver Let_def cong: sum.case_cong)

lemma List_loop_call_driver: "List_loop en r cs acc (call_driver x w) = List_loop en r cs acc w"
  by (induction cs arbitrary: acc) (simp_all add: load_call_driver cong: sum.case_cong)

subsection \<open>The loop of List\<close>

lemma List_loop_fails:
  "\<exists>c \<in> set cs. isl (load en r c w) \<Longrightarrow> isl (List_loop en r cs acc w)"
  by (induction cs arbitrary: acc) (auto split: sum.splits)

lemma List_loop_all:
  "\<forall>c \<in> set cs. \<not> isl (load en r c w) \<Longrightarrow>
     List_loop en r cs acc w = Inr (acc @ map (\<lambda>c. projr (load en r c w)) cs)"
  by (induction cs arbitrary: acc) (auto split: sum.splits)

subsection \<open>The scenario, step by step\<close>

lemma Create_example:
  "Create example_env example_runtime ''c1'' example_opts example_world =
     (Returns (Some example_container, None), created_world)"
  by code_simp

lemma StartProcess_example:
  "StartProcess example_env example_runtime ''c1'' example_container example_exec created_world =
     (Inr \<lparr>proc_id = ''exec1'', proc_pid = 4243\<rparr>, started_container, started_world)"
  by code_simp

subsection \<open>Delete\<close>

text \<open>
  Claim C5. \<open>Delete\<close> calls the driver's delete once, with the ID of the container. When
  the driver fails, \<open>Delete\<close> returns the driver's error and the world is as before but
  for that call: the files of the ledger are unchanged. When the driver succeeds,
  \<open>Delete\<close> returns nil, nothing is left at or below the state directory of the
  container, and every other path is as before.
\<close>

theorem Delete_ledger:
  "(runc_Delete en (cid c) = Some e \<longrightarrow>
      Delete en r c w = (Some e, w\<lparr>driver_calls := driver_calls w @ [DeleteCall (cid c)]\<rparr>)) \<and>
   (runc_Delete en (cid c) = None \<longrightarrow>
      fst (Delete en r c w) = None \<and>
      (\<forall>p. prefix (stateDir c) p \<longrightarrow> map_of (files (snd (Delete en r c w))) p = None) \<and>
      (\<forall>p. \<not> prefix (stateDir c) p \<longrightarrow>
           map_of (files (snd (Delete en r c w))) p = map_of (files w) p) \<and>
      driver_calls (snd (Delete en r c w)) = driver_calls w @ [DeleteCall (cid c)])"
  by (simp add: Delete_def StateDir_Delete_def call_driver_def map_of_RemoveAll
        map_of_RemoveAll_other)


text \<open>In the scenario: deleting \<open>c1\<close> with a driver that succeeds and with one that
  fails.\<close>

theorem Delete_ledger_witness:
  "runc_Delete example_env (cid example_container) = None \<and>
   fst (Delete example_env example_runtime example_container created_world) = None \<and>
   map_of (files (snd (Delete example_env example_runtime example_container created_world)))
     [''/run/containerd'', ''c1'', ''processes'', ''init'', ''pid''] = None \<and>
   map_of (files (snd (Delete example_env example_runtime example_container created_world)))
     [''/run/containerd''] = Some Dir \<and>
   runc_Delete delete_failing_env (cid example_container) = Some (DriverError ''delete failed'') \<and>
   Delete delete_failing_env example_runtime example_container created_world =
     (Some (DriverError ''delete failed''),
      created_world\<lparr>driver_calls := driver_calls created_world @ [DeleteCall ''c1'']\<rparr>)"
proof -
  have ok: "runc_Delete example_env (cid example_container) = None"
    by (simp add: example_env_def)
  have bad: "runc_Delete delete_failing_env (cid example_container) = Some (DriverError ''delete failed'')"
    by (simp add: delete_failing_env_def)
  have pre: "prefix (stateDir example_container)
               [''/run/containerd'', ''c1'', ''processes'', ''init'', ''pid'']"
    by (simp add: example_container_def)
  have npre: "\<not> prefix (stateDir example_container) [''/run/containerd'']"
    by (simp add: example_container_def)
  have root: "map_of (files created_world) [''/run/containerd''] = Some Dir"
    by (simp add: created_world_def)
  have c: "cid example_container = ''c1''"
    by (simp add: example_container_def)
  from Delete_ledger [of example_env example_container _ example_runtime created_world]
       Delete_ledger [of delete_failing_env example_container "DriverError ''delete failed''"
                         example_runtime created_world]
       ok bad pre npre root c
  show ?thesis by simp
qed

subsection \<open>StartProcess\<close>

text \<open>
  Claim C6. Let \<open>StartProcess\<close> allocate the slot \<open>d\<close>, a directory of the ledger
  from then on. When the driver's exec call fails, \<open>StartProcess\<close> returns the
  driver's error and nothing is left at or below \<open>d\<close>. When \<open>StartProcess\<close> returns a process, the container has this process
  attached as its last one, not marked init.
\<close>

theorem StartProcess_rollback:
  assumes "StateDir_NewProcess en (stateDir c) w = ((d, None), w1)"
  shows "map_of (files w1) d = Some Dir \<and>
         (runc_ExecProcess en (cid c) (spec opts) (Join d ident) = DriverFails e \<longrightarrow>
            fst (StartProcess en r ident c opts w) = Inl e \<and>
            (\<forall>q. prefix d q \<longrightarrow>
               map_of (files (snd (snd (StartProcess en r ident c opts w)))) q = None)) \<and>
         (\<forall>p. fst (StartProcess en r ident c opts w) = Inr p \<longrightarrow>
            processes (fst (snd (StartProcess en r ident c opts w))) = processes c @ [(p, False)])"
proof -
  have slot: "Join (StateDir_Processes (stateDir c)) (Base d) = d"
    using assms by (rule NewProcess_slot)
  have dir: "map_of (files w1) d = Some Dir"
    using assms by (rule NewProcess_slot)
  show ?thesis
    using assms slot dir
    by (auto simp: StartProcess_def StartProcess_body_def StateDir_DeleteProcess_def
          Let_def AddProcess_def map_of_RemoveAll
          split: driver_outcome.splits sum.splits)
qed


text \<open>In the scenario: starting a process in \<open>c1\<close> with a driver whose exec call fails
  and with one whose exec call succeeds.\<close>

theorem StartProcess_rollback_witness:
  "StateDir_NewProcess exec_failing_env (stateDir example_container) created_world =
     (([''/run/containerd'', ''c1'', ''processes'', ''exec1''], None),
      created_world\<lparr>files := Mkdir [''/run/containerd'', ''c1'', ''processes'', ''exec1'']
                                  (files created_world)\<rparr>) \<and>
   fst (StartProcess exec_failing_env example_runtime ''c1'' example_container example_exec
          created_world) = Inl (DriverError ''exec failed'') \<and>
   map_of (files (snd (snd (StartProcess exec_failing_env example_runtime ''c1''
                              example_container example_exec created_world))))
     [''/run/containerd'', ''c1'', ''processes'', ''exec1''] = None \<and>
   fst (StartProcess example_env example_runtime ''c1'' example_container example_exec
          created_world) = Inr \<lparr>proc_id = ''exec1'', proc_pid = 4243\<rparr> \<and>
   processes (fst (snd (StartProcess example_env example_runtime ''c1'' example_container
                          example_exec created_world))) =
     processes example_container @ [(\<lparr>proc_id = ''exec1'', proc_pid = 4243\<rparr>, False)]"
proof -
  have alloc: "StateDir_NewProcess exec_failing_env (stateDir example_container) created_world =
     (([''/run/containerd'', ''c1'', ''processes'', ''exec1''], None),
      created_world\<lparr>files := Mkdir [''/run/containerd'', ''c1'', ''processes'', ''exec1'']
                                  (files created_world)\<rparr>)"
    by code_simp
  have alloc2: "StateDir_NewProcess example_env (stateDir example_container) created_world =
     (([''/run/containerd'', ''c1'', ''processes'', ''exec1''], None),
      created_world\<lparr>files := Mkdir [''/run/containerd'', ''c1'', ''processes'', ''exec1'']
                                  (files created_world)\<rparr>)"
    by code_simp
  have fails: "runc_ExecProcess exec_failing_env (cid example_container) (spec example_exec)
                 (Join [''/run/containerd'', ''c1'', ''processes'', ''exec1''] ''c1'') =
               DriverFails (DriverError ''exec failed'')"
    by (simp add: exec_failing_env_def)
  have started: "fst (StartProcess example_env example_runtime ''c1'' example_container
                   example_exec created_world) = Inr \<lparr>proc_id = ''exec1'', proc_pid = 4243\<rparr>"
    by (simp add: StartProcess_example)
  from StartProcess_rollback [OF alloc, of example_exec "''c1''" "DriverError ''exec failed''"
         example_runtime]
       StartProcess_rollback [OF alloc2, of example_exec "''c1''" _ example_runtime]
       alloc fails started
  show ?thesis by simp
qed

subsection \<open>List\<close>

text \<open>
  Claim C7. Let the driver enumerate the containers \<open>runcCs\<close>. When loading one of them
  fails, \<open>List\<close> returns an error and no sequence of containers; when loading fails for
  none, it returns the loaded containers, one per enumerated container and in their order.
\<close>

theorem List_all_or_nothing:
  assumes "runc_List en = Inr runcCs"
  shows "((\<exists>c \<in> set runcCs. isl (load en r c w)) \<longrightarrow> isl (fst (List en r w))) \<and>
         ((\<forall>c \<in> set runcCs. \<not> isl (load en r c w)) \<longrightarrow>
            fst (List en r w) = Inr (map (\<lambda>c. projr (load en r c w)) runcCs))"
  using assms List_loop_fails [of runcCs en r w "[]"] List_loop_all [of runcCs en r w "[]"]
  by (simp add: List_def Let_def List_loop_call_driver)


text \<open>In the scenario: listing after the creation of \<open>c1\<close>, and listing after a further
  process was started, when loading \<open>c1\<close> fails.\<close>

theorem List_all_or_nothing_witness:
  "runc_List example_env = Inr [\<lparr>rc_ID = ''c1'', rc_Bundle = ''/bundle'', rc_Pid = 4242\<rparr>] \<and>
   fst (List example_env example_runtime created_world) = Inr [example_container] \<and>
   isl (load example_env example_runtime
          \<lparr>rc_ID = ''c1'', rc_Bundle = ''/bundle'', rc_Pid = 4242\<rparr> started_world) \<and>
   isl (fst (List example_env example_runtime started_world))"
proof -
  have ls: "runc_List example_env = Inr [\<lparr>rc_ID = ''c1'', rc_Bundle = ''/bundle'', rc_Pid = 4242\<rparr>]"
    by (simp add: example_env_def)
  have good: "load example_env example_runtime
                \<lparr>rc_ID = ''c1'', rc_Bundle = ''/bundle'', rc_Pid = 4242\<rparr> created_world =
              Inr example_container"
    by code_simp
  have bad: "load example_env example_runtime
               \<lparr>rc_ID = ''c1'', rc_Bundle = ''/bundle'', rc_Pid = 4242\<rparr> started_world =
             Inl (IOError ''cannot read pid file'')"
    by code_simp
  from List_all_or_nothing [OF ls, of example_runtime created_world]
       List_all_or_nothing [OF ls, of example_runtime started_world]
       ls good bad
  show ?thesis by simp
qed

subsection \<open>DeleteProcess\<close>

text \<open>
  Claim C10. \<open>DeleteProcess\<close> returns nil whatever the removal of the slot reports, and
  it issues no call to the driver and sends no signal.
\<close>

theorem DeleteProcess_returns_nil:
  "fst (DeleteProcess_with rm c pid_id w) = None \<and>
   fst (DeleteProcess r c pid_id w) = None \<and>
   driver_calls (snd (DeleteProcess r c pid_id w)) = driver_calls w \<and>
   kills (snd (DeleteProcess r c pid_id w)) = kills w"
  by (simp add: DeleteProcess_def DeleteProcess_with_def StateDir_DeleteProcess_def)

subsection \<open>New\<close>

text \<open>
  Claim C3 says that an empty runtime root is refused at construction. \<open>New\<close> has no
  error result and builds an executor of the empty root, whose driver root is the relative
  path \<open>runc\<close>; the error value \<open>ErrRootEmpty\<close> is returned nowhere.
\<close>

theorem New_accepts_empty_root:
  "New '''' = \<lparr>root = '''', runc = \<lparr>Root = [''runc'']\<rparr>\<rparr>"
  by code_simp

subsection \<open>Create\<close>

text \<open>
  Claim C1 says that \<open>Create\<close> returns the driver's error and leaves no ledger entry when
  the driver's create call fails. In the scenario with such a driver, the return statement
  sets the named result \<open>container\<close> to nil, the deferred function asks this nil
  pointer for its state directory, and \<open>Create\<close> panics; the ledger entry of \<open>c1\<close>
  is still there.
\<close>

theorem Create_driver_failure_panics:
  "fst (Create create_failing_env example_runtime ''c1'' example_opts example_world) =
     Panics ''invalid memory address or nil pointer dereference'' \<and>
   map_of (files (snd (Create create_failing_env example_runtime ''c1'' example_opts
                         example_world))) [''/run/containerd'', ''c1''] = Some Dir"
  by code_simp

text \<open>
  Claim C9 says the same of every error exit of \<open>Create\<close>, and that the driver's delete
  is not called there. In the scenario with a driver whose create call is done without a
  PID file, reading the PID file fails, the deferred function panics as before, the ledger
  entry of \<open>c1\<close> is still there, and the only call to the driver is the create call.
\<close>

theorem Create_pidfile_failure_panics:
  "runc_Create create_silent_env ''c1'' (Bundle example_opts)
     [''/run/containerd'', ''c1'', ''processes'', ''init'', ''pid''] = DriverDone None \<and>
   fst (Create create_silent_env example_runtime ''c1'' example_opts example_world) =
     Panics ''invalid memory address or nil pointer dereference'' \<and>
   map_of (files (snd (Create create_silent_env example_runtime ''c1'' example_opts
                         example_world))) [''/run/containerd'', ''c1''] = Some Dir \<and>
   driver_calls (snd (Create create_silent_env example_runtime ''c1'' example_opts
                        example_world)) =
     [CreateCall ''c1'' ''/bundle''
        [''/run/containerd'', ''c1'', ''processes'', ''init'', ''pid''] ''in'' ''out'' ''err'']"
  by code_simp

subsection \<open>SignalProcess\<close>

text \<open>
  Claim C2 says that signalling a process the container does not hold returns a distinct
  not-found condition, never a generic error. In the scenario the container holds no process
  \<open>exec1\<close>, and \<open>SignalProcess\<close> returns an error made by \<open>fmt.Errorf\<close>, whose
  message asks for a not-found error to be made; no signal is sent.
\<close>

theorem SignalProcess_unknown_process:
  "Container_GetProcess example_container ''exec1'' = None \<and>
   SignalProcess example_env example_runtime example_container ''exec1'' 15 created_world =
     (Some (Errorf ''Make a Process Not Found error''), created_world)"
  by code_simp

subsection \<open>The PID-file target of StartProcess\<close>

text \<open>
  Claim C8 says that the PID-file target of \<open>Create\<close> and of \<open>StartProcess\<close> is the
  file \<open>pid\<close> of the slot. In the scenario, with \<open>id\<close> standing for the container
  ID, the target \<open>StartProcess\<close> hands to the driver is the file \<open>c1\<close> of the slot
  \<open>exec1\<close>.
\<close>

theorem StartProcess_pidfile_target:
  "driver_calls (snd (snd (StartProcess example_env example_runtime ''c1'' example_container
                             example_exec created_world))) =
     driver_calls created_world @
       [ExecCall ''c1'' ''sh'' [''/run/containerd'', ''c1'', ''processes'', ''exec1'', ''c1'']
          True ''in'' ''out'' ''err'']"
  by code_simp

text \<open>
  Claim C4 says that \<open>Load\<close> returns the container with all of its processes after a
  creation and N started processes. In the scenario \<open>c1\<close> is created and one process is
  started in it, both with success; \<open>Load\<close> then fails, since the slot \<open>exec1\<close> has
  no file \<open>pid\<close>.
\<close>

theorem Load_after_StartProcess_fails:
  "Create example_env example_runtime ''c1'' example_opts example_world =
     (Returns (Some example_container, None), created_world) \<and>
   StartProcess example_env example_runtime ''c1'' example_container example_exec created_world =
     (Inr \<lparr>proc_id = ''exec1'', proc_pid = 4243\<rparr>, started_container, started_world) \<and>
   fst (Load example_env example_runtime ''c1'' started_world) =
     Inl (IOError ''cannot read pid file'')"
  by code_simp

end
